theory Spec2Isabelle
  imports Main "HOL-Library.Word"
begin

section \<open>The sticky kernel manager of DarkPyonix\_km/manager.py\<close>

text \<open>
  The module intercepts the start of a Jupyter kernel: it derives a kernel id from the
  notebook's normalised path and the kernel type, and returns that id instead of starting a
  kernel when the registry of the underlying manager already holds a live kernel under it.

  The module's functions are embedded one by one, under their names without the leading
  underscore (an Isabelle name starts with a letter). Everything the module obtains from
  outside itself is made explicit:
  \<^item> the operating system and the \<^verbatim>\<open>uuid\<close> library are a record \<open>host\<close> of functions and
    values, so every theorem holds for every platform, file system and hash;
  \<^item> the object \<^verbatim>\<open>self\<close> is a record \<open>manager\<close>: the server's root directory, the registry
    \<^verbatim>\<open>self._kernels\<close>, and the two start operations of the superclass;
  \<^item> an exception is a value: a function that can raise returns \<open>exn + 'a\<close>, with \<open>Inl\<close>
    for the raised exception;
  \<^item> every operation on the registry, on a kernel handle and on the superclass is written to
    a list of calls, in the order the code makes them, next to the returned value.

  The calls of \<^verbatim>\<open>self._debug\<close> only write log lines and take no part in any decision;
  they are left out.
\<close>

subsection \<open>Values of the Python program\<close>

text \<open>
  \<open>exn\<close> stands for the instances of \<^verbatim>\<open>Exception\<close>, which is what both
  \<^verbatim>\<open>except Exception\<close> clauses of the module catch; the string is the class name.
\<close>

datatype exn = Raised string

type_synonym uuid = "128 word"

text \<open>
  A keyword argument of a start request is absent, present with the value \<^verbatim>\<open>None\<close>, or
  present with a value. The arguments the module reads have the types of the Jupyter
  interface (\<^verbatim>\<open>kernel_id\<close>, \<^verbatim>\<open>kernel_name\<close> and \<^verbatim>\<open>path\<close> are strings, \<^verbatim>\<open>env\<close> is
  a dictionary from strings to strings); every other argument is passed on unread.
\<close>

datatype 'a arg = Absent | PyNone | Val 'a

record kwargs =
  kernel_id :: "string arg"
  kernel_name :: "string arg"
  path :: "string arg"
  env :: "(string \<rightharpoonup> string) arg"
  passthrough :: "(string \<times> string) list"

text \<open>\<^verbatim>\<open>d.get(k)\<close> and \<^verbatim>\<open>d.pop(k, None)\<close>: \<^verbatim>\<open>None\<close> for an absent key.\<close>

fun arg_get :: "'a arg \<Rightarrow> 'a option" where
  "arg_get (Val x) = Some x"
| "arg_get PyNone = None"
| "arg_get Absent = None"

text \<open>\<^verbatim>\<open>d.get(k, default)\<close>: the default only for an absent key.\<close>

fun get_default :: "'a arg \<Rightarrow> 'a option \<Rightarrow> 'a option" where
  "get_default (Val x) d = Some x"
| "get_default PyNone d = None"
| "get_default Absent d = d"

text \<open>\<^verbatim>\<open>x or d\<close> for an optional string \<open>x\<close>: \<^verbatim>\<open>None\<close> and the empty string are false.\<close>

fun str_or :: "string option \<Rightarrow> string \<Rightarrow> string" where
  "str_or None d = d"
| "str_or (Some s) d = (if s \<noteq> [] then s else d)"

text \<open>How an f-string prints a value that is a string or \<^verbatim>\<open>None\<close>.\<close>

fun format_str :: "string option \<Rightarrow> string" where
  "format_str None = ''None''"
| "format_str (Some s) = s"

subsection \<open>The host: operating system and uuid library\<close>

text \<open>
  \<open>os_name\<close> is \<^verbatim>\<open>os.name\<close>, \<open>os_getcwd\<close> the value of \<^verbatim>\<open>os.getcwd()\<close>, the
  \<open>os_path_\<close> fields are the functions of \<^verbatim>\<open>os.path\<close> (total on strings: paths without
  NUL characters), \<open>os_environ\<close> is \<^verbatim>\<open>os.environ\<close>, \<open>uuid_UUID\<close> is the constructor
  \<^verbatim>\<open>uuid.UUID(hex)\<close>, which raises on a malformed string, and \<open>uuid_uuid5\<close> is
  \<^verbatim>\<open>uuid.uuid5\<close>. \<open>fs_ignores_case\<close> records whether the file system that holds the
  notebooks treats names that differ only in letter case as one file; the module never asks
  for it.
\<close>

record host =
  os_name :: string
  fs_ignores_case :: bool
  os_getcwd :: string
  os_path_isabs :: "string \<Rightarrow> bool"
  os_path_join :: "string \<Rightarrow> string \<Rightarrow> string"
  os_path_abspath :: "string \<Rightarrow> string"
  os_path_realpath :: "string \<Rightarrow> string"
  os_path_normcase :: "string \<Rightarrow> string"
  os_environ :: "string \<rightharpoonup> string"
  uuid_UUID :: "string \<Rightarrow> exn + uuid"
  uuid_uuid5 :: "uuid \<Rightarrow> string \<Rightarrow> uuid"

text \<open>\<^verbatim>\<open>DEFAULT_NAMESPACE = uuid.UUID("f2a57b34-7b27-43e9-87fd-1b7e9f9d5d6a")\<close>\<close>

definition DEFAULT_NAMESPACE :: uuid where
  "DEFAULT_NAMESPACE = 0xf2a57b347b2743e987fd1b7e9f9d5d6a"

text \<open>
  \<^verbatim>\<open>str(u)\<close> for a UUID: the 32 hexadecimal digits of its integer value
  (\<^verbatim>\<open>'%032x' % self.int\<close>), lower case, in groups of 8-4-4-4-12.
\<close>

definition hex_digit :: "int \<Rightarrow> char" where
  "hex_digit d = ''0123456789abcdef'' ! nat (d mod 16)"

fun hex_digits :: "nat \<Rightarrow> int \<Rightarrow> string" where
  "hex_digits 0 n = []"
| "hex_digits (Suc k) n = hex_digits k (n div 16) @ [hex_digit n]"

definition uuid_str :: "uuid \<Rightarrow> string" where
  "uuid_str u =
     (let h = hex_digits 32 (uint u)
      in take 8 h @ ''-'' @ take 4 (drop 8 h) @ ''-'' @ take 4 (drop 12 h) @ ''-''
         @ take 4 (drop 16 h) @ ''-'' @ drop 20 h)"

subsection \<open>The utility functions\<close>

text \<open>
  \<^verbatim>\<open>
  def _abs_norm(root_dir, raw_path):
      if not raw_path:
          return ""
      base = root_dir or os.getcwd()
      p = raw_path if os.path.isabs(raw_path) else os.path.join(base, raw_path)
      p = os.path.abspath(os.path.realpath(p))
      if os.name == "nt":
          p = os.path.normcase(p)
      return p
  \<close>
\<close>

definition abs_norm :: "host \<Rightarrow> string option \<Rightarrow> string option \<Rightarrow> string" where
  "abs_norm h root raw_path =
     (case raw_path of
        None \<Rightarrow> []
      | Some raw \<Rightarrow>
          if raw = [] then []
          else
            (let base = str_or root (os_getcwd h);
                 p = (if os_path_isabs h raw then raw else os_path_join h base raw);
                 p = os_path_abspath h (os_path_realpath h p);
                 p = (if os_name h = ''nt'' then os_path_normcase h p else p)
             in p))"

text \<open>
  \<^verbatim>\<open>
  def _pick_path_from_kwargs(kwargs):
      raw = kwargs.get("path") or ""
      if raw:
          return raw
      env = kwargs.get("env") or {}
      return env.get("JPY_SESSION_NAME") or env.get("NOTEBOOK_PATH") or ""
  \<close>
\<close>

definition pick_path_from_kwargs :: "kwargs \<Rightarrow> string" where
  "pick_path_from_kwargs kwargs =
     (let raw = str_or (arg_get (path kwargs)) []
      in if raw \<noteq> [] then raw
         else
           (let e = (case arg_get (env kwargs) of None \<Rightarrow> Map.empty | Some d \<Rightarrow> d)
            in str_or (e ''JPY_SESSION_NAME'') (str_or (e ''NOTEBOOK_PATH'') [])))"

text \<open>
  \<^verbatim>\<open>
  def _stable_kernel_id(abs_path, kernel_name, ns):
      return str(uuid.uuid5(ns, f"{abs_path}|{kernel_name}"))
  \<close>
  The kernel name is what \<^verbatim>\<open>kwargs.get("kernel_name", "python3")\<close> gave, a string or
  \<^verbatim>\<open>None\<close>.
\<close>

definition stable_kernel_id :: "host \<Rightarrow> string \<Rightarrow> string option \<Rightarrow> uuid \<Rightarrow> string" where
  "stable_kernel_id h abs_path kname ns =
     uuid_str (uuid_uuid5 h ns (abs_path @ ''|'' @ format_str kname))"

text \<open>
  \<^verbatim>\<open>
  def _namespace():
      v = os.environ.get("STICKYKM_NAMESPACE")
      try:
          return uuid.UUID(v) if v else DEFAULT_NAMESPACE
      except Exception:
          return DEFAULT_NAMESPACE
  \<close>
\<close>

definition namespace :: "host \<Rightarrow> exn + uuid" where
  "namespace h =
     (let v = os_environ h ''STICKYKM_NAMESPACE'';
          tried = (case v of
                     None \<Rightarrow> Inr DEFAULT_NAMESPACE
                   | Some s \<Rightarrow> if s \<noteq> [] then uuid_UUID h s else Inr DEFAULT_NAMESPACE)
      in case tried of
           Inl e \<Rightarrow> Inr DEFAULT_NAMESPACE
         | Inr u \<Rightarrow> Inr u)"

subsection \<open>The manager\<close>

text \<open>
  A kernel handle is represented by what \<^verbatim>\<open>km.is_alive()\<close> does when it is called: it
  returns a truth value or raises. \<open>root_dir\<close> is
  \<^verbatim>\<open>getattr(self.parent, "root_dir", None) if hasattr(self, "parent") else None\<close>,
  \<open>kernels\<close> is \<^verbatim>\<open>self._kernels\<close>, and the two \<open>super_\<close> fields are the start operations of
  \<^verbatim>\<open>MappingKernelManager\<close>, called with \<^verbatim>\<open>kernel_id=\<close> and the remaining keyword
  arguments; each returns a kernel id or raises. For the asynchronous one the value is what
  \<^verbatim>\<open>await\<close> yields.
\<close>

datatype handle = Handle (is_alive: "exn + bool")

record manager =
  root_dir :: "string option"
  kernels :: "string \<rightharpoonup> handle"
  super_start_kernel :: "string option \<Rightarrow> kwargs \<Rightarrow> exn + string"
  super_start_kernel_async :: "string option \<Rightarrow> kwargs \<Rightarrow> exn + string"

text \<open>
  The calls a start request makes on its collaborators: \<^verbatim>\<open>proposed in self._kernels\<close>,
  \<^verbatim>\<open>self._kernels[proposed]\<close>, \<^verbatim>\<open>km.is_alive()\<close> on the handle found under an id, and the
  two start operations of the superclass with the kernel id and the keyword arguments
  handed over.
\<close>

datatype call =
    Contains string
  | GetItem string
  | IsAlive string
  | SuperStart "string option" kwargs
  | SuperStartAsync "string option" kwargs

record outcome =
  result :: "exn + string"
  calls :: "call list"

text \<open>
  \<^verbatim>\<open>
  def _propose_id(self, abs_path, kernel_name):
      return _stable_kernel_id(abs_path, kernel_name, _namespace())
  \<close>
\<close>

definition propose_id :: "host \<Rightarrow> manager \<Rightarrow> string \<Rightarrow> string option \<Rightarrow> exn + string" where
  "propose_id h self abs_path kname =
     (case namespace h of
        Inl e \<Rightarrow> Inl e
      | Inr ns \<Rightarrow> Inr (stable_kernel_id h abs_path kname ns))"

text \<open>
  \<^verbatim>\<open>
  def start_kernel(self, **kwargs):
      kernel_id = kwargs.pop("kernel_id", None)
      kernel_name = kwargs.get("kernel_name", "python3")
      raw_path = _pick_path_from_kwargs(kwargs)
      abs_path = _abs_norm(getattr(self.parent, "root_dir", None)
                           if hasattr(self, "parent") else None, raw_path)
      if abs_path:
          kwargs["path"] = abs_path
      if kernel_id is None and abs_path:
          proposed = self._propose_id(abs_path, kernel_name)
          if proposed in self._kernels:
              km = self._kernels[proposed]
              try:
                  alive = km.is_alive()
              except Exception:
                  alive = True
              if alive:
                  return proposed
          kernel_id = proposed
      out = super().start_kernel(kernel_id=kernel_id, **kwargs)
      return out
  \<close>
\<close>

definition start_kernel :: "host \<Rightarrow> manager \<Rightarrow> kwargs \<Rightarrow> outcome" where
  "start_kernel h self kwargs0 =
     (let kid = arg_get (kernel_id kwargs0);
          kwargs1 = kwargs0\<lparr>kernel_id := Absent\<rparr>;
          kname = get_default (kernel_name kwargs1) (Some ''python3'');
          raw_path = pick_path_from_kwargs kwargs1;
          abs_path = abs_norm h (root_dir self) (Some raw_path);
          kwargs2 = (if abs_path \<noteq> [] then kwargs1\<lparr>path := Val abs_path\<rparr> else kwargs1)
      in if kid = None \<and> abs_path \<noteq> [] then
           (case propose_id h self abs_path kname of
              Inl e \<Rightarrow> \<lparr>result = Inl e, calls = []\<rparr>
            | Inr proposed \<Rightarrow>
                (case kernels self proposed of
                   None \<Rightarrow>
                     \<lparr>result = super_start_kernel self (Some proposed) kwargs2,
                      calls = [Contains proposed, SuperStart (Some proposed) kwargs2]\<rparr>
                 | Some km \<Rightarrow>
                     (let alive = (case is_alive km of Inl e \<Rightarrow> True | Inr b \<Rightarrow> b)
                      in if alive then
                           \<lparr>result = Inr proposed,
                            calls = [Contains proposed, GetItem proposed, IsAlive proposed]\<rparr>
                         else
                           \<lparr>result = super_start_kernel self (Some proposed) kwargs2,
                            calls = [Contains proposed, GetItem proposed, IsAlive proposed,
                                     SuperStart (Some proposed) kwargs2]\<rparr>)))
         else
           \<lparr>result = super_start_kernel self kid kwargs2,
            calls = [SuperStart kid kwargs2]\<rparr>)"

text \<open>
  \<^verbatim>\<open>
  async def start_kernel_async(self, **kwargs):
      kernel_id = kwargs.pop("kernel_id", None)
      kernel_name = kwargs.get("kernel_name", "python3")
      raw_path = _pick_path_from_kwargs(kwargs)
      abs_path = _abs_norm(getattr(self.parent, "root_dir", None)
                           if hasattr(self, "parent") else None, raw_path)
      if abs_path:
          kwargs["path"] = abs_path
      if kernel_id is None and abs_path:
          proposed = self._propose_id(abs_path, kernel_name)
          if proposed in self._kernels:
              km = self._kernels[proposed]
              try:
                  alive = km.is_alive()
              except Exception:
                  alive = True
              if alive:
                  return proposed
          kernel_id = proposed
      out = await super().start_kernel_async(kernel_id=kernel_id, **kwargs)
      return out
  \<close>
\<close>

definition start_kernel_async :: "host \<Rightarrow> manager \<Rightarrow> kwargs \<Rightarrow> outcome" where
  "start_kernel_async h self kwargs0 =
     (let kid = arg_get (kernel_id kwargs0);
          kwargs1 = kwargs0\<lparr>kernel_id := Absent\<rparr>;
          kname = get_default (kernel_name kwargs1) (Some ''python3'');
          raw_path = pick_path_from_kwargs kwargs1;
          abs_path = abs_norm h (root_dir self) (Some raw_path);
          kwargs2 = (if abs_path \<noteq> [] then kwargs1\<lparr>path := Val abs_path\<rparr> else kwargs1)
      in if kid = None \<and> abs_path \<noteq> [] then
           (case propose_id h self abs_path kname of
              Inl e \<Rightarrow> \<lparr>result = Inl e, calls = []\<rparr>
            | Inr proposed \<Rightarrow>
                (case kernels self proposed of
                   None \<Rightarrow>
                     \<lparr>result = super_start_kernel_async self (Some proposed) kwargs2,
                      calls = [Contains proposed, SuperStartAsync (Some proposed) kwargs2]\<rparr>
                 | Some km \<Rightarrow>
                     (let alive = (case is_alive km of Inl e \<Rightarrow> True | Inr b \<Rightarrow> b)
                      in if alive then
                           \<lparr>result = Inr proposed,
                            calls = [Contains proposed, GetItem proposed, IsAlive proposed]\<rparr>
                         else
                           \<lparr>result = super_start_kernel_async self (Some proposed) kwargs2,
                            calls = [Contains proposed, GetItem proposed, IsAlive proposed,
                                     SuperStartAsync (Some proposed) kwargs2]\<rparr>)))
         else
           \<lparr>result = super_start_kernel_async self kid kwargs2,
            calls = [SuperStartAsync kid kwargs2]\<rparr>)"

subsection \<open>Notions the specification uses\<close>

text \<open>
  The order of precedence of the specification for the path of a request: the path
  argument if it is a non-empty string, else the entry \<^verbatim>\<open>JPY_SESSION_NAME\<close> of
  \<^verbatim>\<open>env\<close> if it is a non-empty string, else the entry \<^verbatim>\<open>NOTEBOOK_PATH\<close> of \<^verbatim>\<open>env\<close> if it
  is a non-empty string, else the empty string. It is written from the specification, to
  be compared with \<open>pick_path_from_kwargs\<close>.
\<close>

fun nonempty :: "string option \<Rightarrow> string option" where
  "nonempty None = None"
| "nonempty (Some s) = (if s = [] then None else Some s)"

fun env_entry :: "(string \<rightharpoonup> string) arg \<Rightarrow> string \<Rightarrow> string option" where
  "env_entry (Val d) k = d k"
| "env_entry PyNone k = None"
| "env_entry Absent k = None"

definition path_precedence :: "kwargs \<Rightarrow> string" where
  "path_precedence kw =
     (case nonempty (arg_get (path kw)) of
        Some p \<Rightarrow> p
      | None \<Rightarrow>
          (case nonempty (env_entry (env kw) ''JPY_SESSION_NAME'') of
             Some s \<Rightarrow> s
           | None \<Rightarrow>
               (case nonempty (env_entry (env kw) ''NOTEBOOK_PATH'') of
                  Some s \<Rightarrow> s
                | None \<Rightarrow> [])))"

text \<open>The calls that start a kernel, and the asynchronous counterpart of a call.\<close>

fun is_super_start :: "call \<Rightarrow> bool" where
  "is_super_start (SuperStart k a) = True"
| "is_super_start (SuperStartAsync k a) = True"
| "is_super_start (Contains i) = False"
| "is_super_start (GetItem i) = False"
| "is_super_start (IsAlive i) = False"

fun as_async :: "call \<Rightarrow> call" where
  "as_async (SuperStart k a) = SuperStartAsync k a"
| "as_async (SuperStartAsync k a) = SuperStartAsync k a"
| "as_async (Contains i) = Contains i"
| "as_async (GetItem i) = GetItem i"
| "as_async (IsAlive i) = IsAlive i"

text \<open>
  Two strings differ only in letter case when a lower-casing of strings sends them to one
  string. The lower-casing is a parameter \<open>lower\<close> of everything below: \<^verbatim>\<open>str.lower\<close> of
  Python, which folds every cased character of Unicode, is one such function, and the
  statements hold for each.
\<close>

definition same_modulo_case :: "(string \<Rightarrow> string) \<Rightarrow> string \<Rightarrow> string \<Rightarrow> bool" where
  "same_modulo_case lower p q = (lower p = lower q)"

text \<open>
  A host resolves names without regard to case when its path functions send names that
  differ only in case to names that differ only in case, and its \<^verbatim>\<open>normcase\<close> sends them
  to one name. This is how \<^verbatim>\<open>ntpath\<close> behaves on Windows.
\<close>

definition case_compatible :: "(string \<Rightarrow> string) \<Rightarrow> host \<Rightarrow> bool" where
  "case_compatible lower h =
     ((\<forall>p q. same_modulo_case lower p q \<longrightarrow> os_path_isabs h p = os_path_isabs h q) \<and>
      (\<forall>b p q. same_modulo_case lower p q \<longrightarrow>
          same_modulo_case lower (os_path_join h b p) (os_path_join h b q)) \<and>
      (\<forall>p q. same_modulo_case lower p q \<longrightarrow>
          same_modulo_case lower (os_path_realpath h p) (os_path_realpath h q)) \<and>
      (\<forall>p q. same_modulo_case lower p q \<longrightarrow>
          same_modulo_case lower (os_path_abspath h p) (os_path_abspath h q)) \<and>
      (\<forall>p q. same_modulo_case lower p q \<longrightarrow> os_path_normcase h p = os_path_normcase h q))"

text \<open>
  A lower-casing for the worked examples, on strings held as UTF-8: the letters \<open>A\<close> to
  \<open>Z\<close>, and the capital letters of the Latin-1 supplement (U+00C0 to U+00DE without the
  multiplication sign U+00D7), whose UTF-8 form is the byte 0xC3 and a byte from 0x80 to
  0x9E; the small letter has the second byte 0x20 higher.
\<close>

definition lower_char :: "char \<Rightarrow> char" where
  "lower_char c =
     (let n = of_char c :: nat in if 65 \<le> n \<and> n \<le> 90 then char_of (n + 32) else c)"

definition latin1_upper :: "char \<Rightarrow> bool" where
  "latin1_upper c = (let n = of_char c :: nat in 128 \<le> n \<and> n \<le> 158 \<and> n \<noteq> 151)"

definition fold_char :: "char \<Rightarrow> char \<Rightarrow> char" where
  "fold_char prev c =
     (if prev = CHR 0xC3 \<and> latin1_upper c then char_of (of_char c + 32 :: nat)
      else lower_char c)"

fun lower_after :: "char \<Rightarrow> string \<Rightarrow> string" where
  "lower_after prev [] = []"
| "lower_after prev (c # cs) = fold_char prev c # lower_after c cs"

definition utf8_lower :: "string \<Rightarrow> string" where
  "utf8_lower s = lower_after (CHR 0x00) s"

subsection \<open>Two hosts for worked examples\<close>

text \<open>
  The functions of \<^verbatim>\<open>posixpath\<close>, on a file system without symbolic links (there
  \<^verbatim>\<open>realpath\<close> only normalises): \<^verbatim>\<open>isabs\<close>, \<^verbatim>\<open>join\<close> of two paths, \<^verbatim>\<open>normpath\<close> and
  \<^verbatim>\<open>abspath\<close>. \<^verbatim>\<open>posixpath.normcase\<close> is the identity.
\<close>

fun split_on :: "char \<Rightarrow> string \<Rightarrow> string list" where
  "split_on sep [] = [[]]"
| "split_on sep (c # cs) =
     (if c = sep then [] # split_on sep cs
      else (case split_on sep cs of [] \<Rightarrow> [[c]] | x # xs \<Rightarrow> (c # x) # xs))"

fun join_with :: "string \<Rightarrow> string list \<Rightarrow> string" where
  "join_with sep [] = []"
| "join_with sep [x] = x"
| "join_with sep (x # y # ys) = x @ sep @ join_with sep (y # ys)"

definition posix_isabs :: "string \<Rightarrow> bool" where
  "posix_isabs s = (take 1 s = ''/'')"

definition posix_join :: "string \<Rightarrow> string \<Rightarrow> string" where
  "posix_join a b =
     (if take 1 b = ''/'' then b
      else if a = [] \<or> last a = CHR ''/'' then a @ b
      else a @ ''/'' @ b)"

definition normpath_step :: "nat \<Rightarrow> string list \<Rightarrow> string \<Rightarrow> string list" where
  "normpath_step initial_slashes new_comps part =
     (if part = [] \<or> part = ''.'' then new_comps
      else if part \<noteq> ''..'' \<or> (initial_slashes = 0 \<and> new_comps = [])
              \<or> (new_comps \<noteq> [] \<and> last new_comps = ''..'')
      then new_comps @ [part]
      else if new_comps \<noteq> [] then butlast new_comps
      else new_comps)"

definition posix_normpath :: "string \<Rightarrow> string" where
  "posix_normpath p =
     (if p = [] then ''.''
      else
        (let initial_slashes =
               (if take 1 p = ''/''
                then (if take 2 p = ''//'' \<and> take 3 p \<noteq> ''///'' then 2 else 1)
                else 0);
             comps = foldl (normpath_step initial_slashes) [] (split_on CHR ''/'' p);
             q = replicate initial_slashes CHR ''/'' @ join_with ''/'' comps
         in if q = [] then ''.'' else q))"

definition posix_abspath :: "string \<Rightarrow> string \<Rightarrow> string" where
  "posix_abspath cwd p = posix_normpath (if posix_isabs p then p else posix_join cwd p)"

text \<open>
  The functions of \<^verbatim>\<open>ntpath\<close> as far as the examples need them: \<^verbatim>\<open>isabs\<close>,
  \<^verbatim>\<open>normcase\<close> with the lower-casing above, \<^verbatim>\<open>join\<close> of a directory and a relative name without a
  drive, and \<^verbatim>\<open>abspath\<close> and \<^verbatim>\<open>realpath\<close> on absolute paths that hold no \<^verbatim>\<open>.\<close>, no
  \<^verbatim>\<open>..\<close>, no repeated separator and no link, where they only turn \<^verbatim>\<open>/\<close> into the
  backslash (character 0x5C).
\<close>

definition nt_sep :: "char \<Rightarrow> char" where
  "nt_sep c = (if c = CHR ''/'' then CHR 0x5C else c)"

definition nt_isabs :: "string \<Rightarrow> bool" where
  "nt_isabs s =
     (let t = map nt_sep (take 3 s)
      in take 1 t = [CHR 0x5C] \<or> take 2 (drop 1 t) = [CHR '':'', CHR 0x5C])"

definition nt_join :: "string \<Rightarrow> string \<Rightarrow> string" where
  "nt_join a b =
     (if a = [] \<or> last a \<in> {CHR ''/'', CHR 0x5C, CHR '':''} then a @ b
      else a @ [CHR 0x5C] @ b)"

definition nt_normcase :: "string \<Rightarrow> string" where
  "nt_normcase s = utf8_lower (map nt_sep s)"

text \<open>
  A stand-in for \<^verbatim>\<open>uuid.uuid5\<close> (the real one is SHA-1 over the namespace and the name),
  and \<^verbatim>\<open>uuid.UUID\<close> on the plain form of 32 hexadecimal digits with optional hyphens.
  The theorems below hold for every function in their place.
\<close>

definition example_uuid5 :: "uuid \<Rightarrow> string \<Rightarrow> uuid" where
  "example_uuid5 ns name = foldl (\<lambda>a c. a * 257 + of_char c) ns name"

fun index_of :: "'a \<Rightarrow> 'a list \<Rightarrow> nat" where
  "index_of x [] = 0"
| "index_of x (y # ys) = (if x = y then 0 else Suc (index_of x ys))"

definition hex_value :: "char \<Rightarrow> nat" where
  "hex_value c = index_of (lower_char c) ''0123456789abcdef''"

definition example_UUID :: "string \<Rightarrow> exn + uuid" where
  "example_UUID s =
     (let hs = filter (\<lambda>c. c \<noteq> CHR ''-'') s
      in if length hs = 32 \<and> list_all (\<lambda>c. hex_value c < 16) hs
         then Inr (foldl (\<lambda>a c. 16 * a + of_nat (hex_value c)) 0 hs)
         else Inl (Raised ''ValueError''))"

text \<open>
  A Linux or macOS host (\<^verbatim>\<open>os.name == "posix"\<close>) with the given environment; on macOS
  the default file system ignores case. A Windows host (\<^verbatim>\<open>os.name == "nt"\<close>).
\<close>

definition posix_host :: "bool \<Rightarrow> (string \<rightharpoonup> string) \<Rightarrow> host" where
  "posix_host ignores_case environ =
     \<lparr>os_name = ''posix'', fs_ignores_case = ignores_case, os_getcwd = ''/srv'',
      os_path_isabs = posix_isabs, os_path_join = posix_join,
      os_path_abspath = posix_abspath ''/srv'', os_path_realpath = posix_abspath ''/srv'',
      os_path_normcase = (\<lambda>s. s), os_environ = environ,
      uuid_UUID = example_UUID, uuid_uuid5 = example_uuid5\<rparr>"

definition nt_host :: host where
  "nt_host =
     \<lparr>os_name = ''nt'', fs_ignores_case = True, os_getcwd = ''C:/srv'',
      os_path_isabs = nt_isabs, os_path_join = nt_join,
      os_path_abspath = map nt_sep, os_path_realpath = map nt_sep,
      os_path_normcase = nt_normcase, os_environ = Map.empty,
      uuid_UUID = example_UUID, uuid_uuid5 = example_uuid5\<rparr>"

text \<open>
  The scenario of the specification: a server rooted at \<^verbatim>\<open>/home/u/proj\<close> on a Linux host
  with no namespace variable set, requests for a notebook with the kernel type
  \<^verbatim>\<open>python3\<close>, and an underlying manager that starts a kernel under the id it is given
  and under an id of its own when it is given none.
\<close>

definition linux_host :: host where
  "linux_host = posix_host False Map.empty"

definition request :: "string \<Rightarrow> kwargs" where
  "request p =
     \<lparr>kernel_id = Absent, kernel_name = Val ''python3'', path = Val p, env = Absent,
      passthrough = []\<rparr>"

definition underlying_start :: "string option \<Rightarrow> kwargs \<Rightarrow> exn + string" where
  "underlying_start kid kw =
     (case kid of None \<Rightarrow> Inr ''generated-by-the-underlying-manager'' | Some i \<Rightarrow> Inr i)"

definition server :: "(string \<rightharpoonup> handle) \<Rightarrow> manager" where
  "server registry =
     \<lparr>root_dir = Some ''/home/u/proj'', kernels = registry,
      super_start_kernel = underlying_start, super_start_kernel_async = underlying_start\<rparr>"

definition notebook_id :: string where
  "notebook_id =
     stable_kernel_id linux_host ''/home/u/proj/notebooks/a.ipynb'' (Some ''python3'')
       DEFAULT_NAMESPACE"

text \<open>
  A second request for the same notebook, by another user on a host with another
  environment: no kernel type, the path given through \<^verbatim>\<open>env\<close> and spelled with a
  \<^verbatim>\<open>..\<close>. And a request that names no path at all.
\<close>

definition other_request :: kwargs where
  "other_request =
     \<lparr>kernel_id = PyNone, kernel_name = Absent, path = Val [],
      env = Val [''JPY_SESSION_NAME'' \<mapsto> ''/home/u/proj/notebooks/../notebooks/a.ipynb'',
                 ''USER'' \<mapsto> ''bob''],
      passthrough = [(''user'', ''bob'')]\<rparr>"

definition bare_request :: kwargs where
  "bare_request =
     \<lparr>kernel_id = Absent, kernel_name = Absent, path = PyNone, env = Val Map.empty,
      passthrough = []\<rparr>"

text \<open>
  A macOS host: \<^verbatim>\<open>os.name\<close> is \<^verbatim>\<open>"posix"\<close>, and the file system ignores case.
\<close>

definition macos_host :: host where
  "macos_host = posix_host True Map.empty"

section \<open>Properties\<close>

subsection \<open>Auxiliary facts\<close>

lemma pick_path_pop:
  "pick_path_from_kwargs (kw\<lparr>kernel_id := Absent\<rparr>) = pick_path_from_kwargs kw"
  by (simp add: pick_path_from_kwargs_def Let_def)

lemma namespace_returns: "\<exists>ns. namespace h = Inr ns"
  by (simp add: namespace_def Let_def split: option.split sum.split)

lemma propose_id_returns:
  "namespace h = Inr ns \<Longrightarrow> propose_id h self a k = Inr (stable_kernel_id h a k ns)"
  by (simp add: propose_id_def)

lemma abs_norm_empty: "abs_norm h root (Some []) = []"
  by (simp add: abs_norm_def)

lemma str_or_nonempty: "str_or x d = (case nonempty x of None \<Rightarrow> d | Some s \<Rightarrow> s)"
  by (cases x) simp_all

lemma pick_path_precedence: "pick_path_from_kwargs kw = path_precedence kw"
  by (cases "path kw"; cases "env kw")
    (simp_all add: pick_path_from_kwargs_def path_precedence_def Let_def str_or_nonempty
      split: option.split)

subsection \<open>The scenario of the specification, evaluated\<close>

lemma default_namespace_str:
  "uuid_str DEFAULT_NAMESPACE = ''f2a57b34-7b27-43e9-87fd-1b7e9f9d5d6a''"
  by code_simp

lemma canonical_plain:
  "abs_norm linux_host (Some ''/home/u/proj'') (Some ''notebooks/a.ipynb'') =
     ''/home/u/proj/notebooks/a.ipynb''"
  by code_simp

lemma canonical_dot:
  "abs_norm linux_host (Some ''/home/u/proj'') (Some ''./notebooks/a.ipynb'') =
     ''/home/u/proj/notebooks/a.ipynb''"
  by code_simp

lemma linux_namespace: "namespace linux_host = Inr DEFAULT_NAMESPACE"
  by (simp add: namespace_def linux_host_def posix_host_def)

lemma request_fields:
  "arg_get (kernel_id (request p)) = None"
  "get_default (kernel_name (request p)) (Some ''python3'') = Some ''python3''"
  "pick_path_from_kwargs (request p) = p"
  by (simp_all add: pick_path_from_kwargs_def request_def)

lemma server_fields:
  "root_dir (server r) = Some ''/home/u/proj''"
  "kernels (server r) = r"
  "super_start_kernel (server r) = underlying_start"
  "super_start_kernel_async (server r) = underlying_start"
  by (simp_all add: server_def)

lemma notebook_id_eq:
  "stable_kernel_id linux_host ''/home/u/proj/notebooks/a.ipynb''
     (get_default (kernel_name (request p)) (Some ''python3'')) DEFAULT_NAMESPACE = notebook_id"
  by (simp add: request_fields notebook_id_def)

lemma canonical_dotdot:
  "abs_norm (posix_host False [''USER'' \<mapsto> ''bob'']) None
     (Some ''/home/u/proj/notebooks/../notebooks/a.ipynb'') =
     ''/home/u/proj/notebooks/a.ipynb''"
  by code_simp

lemma other_request_fields:
  "arg_get (kernel_id other_request) = None"
  "get_default (kernel_name other_request) (Some ''python3'') = Some ''python3''"
  "pick_path_from_kwargs other_request = ''/home/u/proj/notebooks/../notebooks/a.ipynb''"
  by (simp_all add: pick_path_from_kwargs_def other_request_def)

lemma malformed_example: "example_UUID ''not-a-uuid'' = Inl (Raised ''ValueError'')"
  by code_simp

lemma wellformed_example:
  "example_UUID ''6ba7b811-9dad-11d1-80b4-00c04fd430c8'' = Inr 0x6ba7b8119dad11d180b400c04fd430c8"
  by (simp add: example_UUID_def hex_value_def lower_char_def)

subsection \<open>The reuse decision\<close>

text \<open>
  Claim C1. A request without a kernel id whose path normalises to a non-empty canonical
  path \<open>a\<close>, in a state where the registry holds a handle under the proposed id and the
  handle's liveness check returns true: \<open>start_kernel\<close> and \<open>start_kernel_async\<close> return
  the proposed id after the membership test, the lookup and the liveness check, and make no
  call of a start operation of the superclass.
\<close>

theorem reuse_live_kernel:
  assumes "arg_get (kernel_id kw) = None"
    and "abs_norm h (root_dir self) (Some (pick_path_from_kwargs kw)) = a"
    and "a \<noteq> []"
    and "namespace h = Inr ns"
    and "stable_kernel_id h a (get_default (kernel_name kw) (Some ''python3'')) ns = proposed"
    and "kernels self proposed = Some km"
    and "is_alive km = Inr True"
  shows "start_kernel h self kw =
           \<lparr>result = Inr proposed,
            calls = [Contains proposed, GetItem proposed, IsAlive proposed]\<rparr> \<and>
         start_kernel_async h self kw =
           \<lparr>result = Inr proposed,
            calls = [Contains proposed, GetItem proposed, IsAlive proposed]\<rparr> \<and>
         filter is_super_start (calls (start_kernel h self kw)) = [] \<and>
         filter is_super_start (calls (start_kernel_async h self kw)) = []"
  using assms
  by (simp add: start_kernel_def start_kernel_async_def Let_def pick_path_pop propose_id_returns)

theorem reuse_live_kernel_witness:
  "kernels (server [notebook_id \<mapsto> Handle (Inr True)]) notebook_id = Some (Handle (Inr True)) \<and>
   start_kernel linux_host (server [notebook_id \<mapsto> Handle (Inr True)])
       (request ''./notebooks/a.ipynb'') =
     \<lparr>result = Inr notebook_id,
      calls = [Contains notebook_id, GetItem notebook_id, IsAlive notebook_id]\<rparr> \<and>
   start_kernel_async linux_host (server [notebook_id \<mapsto> Handle (Inr True)])
       (request ''./notebooks/a.ipynb'') =
     \<lparr>result = Inr notebook_id,
      calls = [Contains notebook_id, GetItem notebook_id, IsAlive notebook_id]\<rparr>"
proof -
  let ?m = "server [notebook_id \<mapsto> Handle (Inr True)]"
  let ?kw = "request ''./notebooks/a.ipynb''"
  have p: "abs_norm linux_host (root_dir ?m) (Some (pick_path_from_kwargs ?kw)) =
      ''/home/u/proj/notebooks/a.ipynb''"
    by (simp only: request_fields server_fields canonical_dot)
  have ne: "''/home/u/proj/notebooks/a.ipynb'' \<noteq> []"
    by simp
  have reg: "kernels ?m notebook_id = Some (Handle (Inr True))"
    by (simp add: server_fields)
  have alive: "is_alive (Handle (Inr True)) = Inr True"
    by simp
  show ?thesis
    using reuse_live_kernel [OF request_fields(1) p ne linux_namespace notebook_id_eq reg alive]
      reg
    by simp
qed

text \<open>
  Claim C2. In the same situation, when the liveness check of the registered handle raises
  an exception \<open>e\<close>: both entry points return the proposed id as a value (the result is
  \<open>Inr\<close>, so nothing is raised), and the calls they made end with the liveness check: no
  kernel is started.
\<close>

theorem liveness_failure_counts_as_alive:
  assumes "arg_get (kernel_id kw) = None"
    and "abs_norm h (root_dir self) (Some (pick_path_from_kwargs kw)) = a"
    and "a \<noteq> []"
    and "namespace h = Inr ns"
    and "stable_kernel_id h a (get_default (kernel_name kw) (Some ''python3'')) ns = proposed"
    and "kernels self proposed = Some km"
    and "is_alive km = Inl e"
  shows "start_kernel h self kw =
           \<lparr>result = Inr proposed,
            calls = [Contains proposed, GetItem proposed, IsAlive proposed]\<rparr> \<and>
         start_kernel_async h self kw =
           \<lparr>result = Inr proposed,
            calls = [Contains proposed, GetItem proposed, IsAlive proposed]\<rparr>"
  using assms
  by (simp add: start_kernel_def start_kernel_async_def Let_def pick_path_pop propose_id_returns)

theorem liveness_failure_counts_as_alive_witness:
  "is_alive (Handle (Inl (Raised ''TimeoutError''))) = Inl (Raised ''TimeoutError'') \<and>
   start_kernel linux_host (server [notebook_id \<mapsto> Handle (Inl (Raised ''TimeoutError''))])
       (request ''notebooks/a.ipynb'') =
     \<lparr>result = Inr notebook_id,
      calls = [Contains notebook_id, GetItem notebook_id, IsAlive notebook_id]\<rparr> \<and>
   start_kernel_async linux_host (server [notebook_id \<mapsto> Handle (Inl (Raised ''TimeoutError''))])
       (request ''notebooks/a.ipynb'') =
     \<lparr>result = Inr notebook_id,
      calls = [Contains notebook_id, GetItem notebook_id, IsAlive notebook_id]\<rparr>"
proof -
  let ?m = "server [notebook_id \<mapsto> Handle (Inl (Raised ''TimeoutError''))]"
  let ?kw = "request ''notebooks/a.ipynb''"
  have p: "abs_norm linux_host (root_dir ?m) (Some (pick_path_from_kwargs ?kw)) =
      ''/home/u/proj/notebooks/a.ipynb''"
    by (simp only: request_fields server_fields canonical_plain)
  have ne: "''/home/u/proj/notebooks/a.ipynb'' \<noteq> []"
    by simp
  have reg: "kernels ?m notebook_id = Some (Handle (Inl (Raised ''TimeoutError'')))"
    by (simp add: server_fields)
  have raises: "is_alive (Handle (Inl (Raised ''TimeoutError''))) = Inl (Raised ''TimeoutError'')"
    by simp
  show ?thesis
    using liveness_failure_counts_as_alive
      [OF request_fields(1) p ne linux_namespace notebook_id_eq reg raises] raises
    by simp
qed

text \<open>
  Claim C3. A request that carries a kernel id \<open>kid\<close>: whatever its path, the only call
  either entry point makes is the start operation of the superclass, with \<open>Some kid\<close> as
  the kernel id and with the remaining arguments, in which the path is overwritten by the
  canonical path when that is not empty. No membership test and no liveness check occur.
\<close>

theorem explicit_kernel_id_bypasses_reuse:
  assumes "kernel_id kw = Val kid"
    and "abs_norm h (root_dir self) (Some (pick_path_from_kwargs kw)) = a"
    and "kw' = (if a \<noteq> [] then kw\<lparr>kernel_id := Absent, path := Val a\<rparr>
                else kw\<lparr>kernel_id := Absent\<rparr>)"
  shows "start_kernel h self kw =
           \<lparr>result = super_start_kernel self (Some kid) kw',
            calls = [SuperStart (Some kid) kw']\<rparr> \<and>
         start_kernel_async h self kw =
           \<lparr>result = super_start_kernel_async self (Some kid) kw',
            calls = [SuperStartAsync (Some kid) kw']\<rparr>"
  using assms
  by (simp add: start_kernel_def start_kernel_async_def Let_def pick_path_pop)

theorem explicit_kernel_id_bypasses_reuse_witness:
  "kernel_id ((request ''notebooks/a.ipynb'')\<lparr>kernel_id := Val ''chosen-by-caller''\<rparr>) =
     Val ''chosen-by-caller'' \<and>
   start_kernel linux_host (server [notebook_id \<mapsto> Handle (Inr True)])
       ((request ''notebooks/a.ipynb'')\<lparr>kernel_id := Val ''chosen-by-caller''\<rparr>) =
     \<lparr>result = Inr ''chosen-by-caller'',
      calls = [SuperStart (Some ''chosen-by-caller'')
                 (request ''/home/u/proj/notebooks/a.ipynb'')]\<rparr> \<and>
   start_kernel_async linux_host (server [notebook_id \<mapsto> Handle (Inr True)])
       ((request ''notebooks/a.ipynb'')\<lparr>kernel_id := Val ''chosen-by-caller''\<rparr>) =
     \<lparr>result = Inr ''chosen-by-caller'',
      calls = [SuperStartAsync (Some ''chosen-by-caller'')
                 (request ''/home/u/proj/notebooks/a.ipynb'')]\<rparr>"
proof -
  let ?m = "server [notebook_id \<mapsto> Handle (Inr True)]"
  let ?kw = "(request ''notebooks/a.ipynb'')\<lparr>kernel_id := Val ''chosen-by-caller''\<rparr>"
  have kid: "kernel_id ?kw = Val ''chosen-by-caller''"
    by simp
  have p: "abs_norm linux_host (root_dir ?m) (Some (pick_path_from_kwargs ?kw)) =
      ''/home/u/proj/notebooks/a.ipynb''"
    using canonical_plain
    by (simp add: server_fields pick_path_from_kwargs_def request_def)
  have kw': "request ''/home/u/proj/notebooks/a.ipynb'' =
      (if ''/home/u/proj/notebooks/a.ipynb'' \<noteq> []
       then ?kw\<lparr>kernel_id := Absent, path := Val ''/home/u/proj/notebooks/a.ipynb''\<rparr>
       else ?kw\<lparr>kernel_id := Absent\<rparr>)"
    by (simp add: request_def)
  show ?thesis
    using explicit_kernel_id_bypasses_reuse [OF kid p kw'] kid
    by (simp add: server_fields underlying_start_def)
qed

text \<open>
  Claim C4. A request without a kernel id and with a non-empty canonical path \<open>a\<close>: when
  the registry holds nothing under the proposed id, and when it holds a handle whose
  liveness check returns false, both entry points call the start operation of the
  superclass with the proposed id as the kernel id (and the canonical path as the path),
  and return what it returns.
\<close>

theorem dead_or_absent_starts_under_proposed:
  assumes "arg_get (kernel_id kw) = None"
    and "abs_norm h (root_dir self) (Some (pick_path_from_kwargs kw)) = a"
    and "a \<noteq> []"
    and "namespace h = Inr ns"
    and "stable_kernel_id h a (get_default (kernel_name kw) (Some ''python3'')) ns = proposed"
    and "kw' = kw\<lparr>kernel_id := Absent, path := Val a\<rparr>"
  shows "(kernels self proposed = None \<longrightarrow>
            start_kernel h self kw =
              \<lparr>result = super_start_kernel self (Some proposed) kw',
               calls = [Contains proposed, SuperStart (Some proposed) kw']\<rparr> \<and>
            start_kernel_async h self kw =
              \<lparr>result = super_start_kernel_async self (Some proposed) kw',
               calls = [Contains proposed, SuperStartAsync (Some proposed) kw']\<rparr>) \<and>
         (\<forall>km. kernels self proposed = Some km \<and> is_alive km = Inr False \<longrightarrow>
            start_kernel h self kw =
              \<lparr>result = super_start_kernel self (Some proposed) kw',
               calls = [Contains proposed, GetItem proposed, IsAlive proposed,
                        SuperStart (Some proposed) kw']\<rparr> \<and>
            start_kernel_async h self kw =
              \<lparr>result = super_start_kernel_async self (Some proposed) kw',
               calls = [Contains proposed, GetItem proposed, IsAlive proposed,
                        SuperStartAsync (Some proposed) kw']\<rparr>)"
  using assms
  by (simp add: start_kernel_def start_kernel_async_def Let_def pick_path_pop propose_id_returns)

theorem dead_or_absent_starts_under_proposed_witness:
  "kernels (server Map.empty) notebook_id = None \<and>
   start_kernel linux_host (server Map.empty) (request ''notebooks/a.ipynb'') =
     \<lparr>result = Inr notebook_id,
      calls = [Contains notebook_id,
               SuperStart (Some notebook_id) (request ''/home/u/proj/notebooks/a.ipynb'')]\<rparr> \<and>
   start_kernel_async linux_host (server Map.empty) (request ''notebooks/a.ipynb'') =
     \<lparr>result = Inr notebook_id,
      calls = [Contains notebook_id,
               SuperStartAsync (Some notebook_id)
                 (request ''/home/u/proj/notebooks/a.ipynb'')]\<rparr> \<and>
   is_alive (Handle (Inr False)) = Inr False \<and>
   start_kernel linux_host (server [notebook_id \<mapsto> Handle (Inr False)])
       (request ''notebooks/a.ipynb'') =
     \<lparr>result = Inr notebook_id,
      calls = [Contains notebook_id, GetItem notebook_id, IsAlive notebook_id,
               SuperStart (Some notebook_id) (request ''/home/u/proj/notebooks/a.ipynb'')]\<rparr> \<and>
   start_kernel_async linux_host (server [notebook_id \<mapsto> Handle (Inr False)])
       (request ''notebooks/a.ipynb'') =
     \<lparr>result = Inr notebook_id,
      calls = [Contains notebook_id, GetItem notebook_id, IsAlive notebook_id,
               SuperStartAsync (Some notebook_id)
                 (request ''/home/u/proj/notebooks/a.ipynb'')]\<rparr>"
proof -
  let ?kw = "request ''notebooks/a.ipynb''"
  have p: "abs_norm linux_host (root_dir (server r)) (Some (pick_path_from_kwargs ?kw)) =
      ''/home/u/proj/notebooks/a.ipynb''" for r
    by (simp only: request_fields server_fields canonical_plain)
  have ne: "''/home/u/proj/notebooks/a.ipynb'' \<noteq> []"
    by simp
  have kw': "request ''/home/u/proj/notebooks/a.ipynb'' =
      ?kw\<lparr>kernel_id := Absent, path := Val ''/home/u/proj/notebooks/a.ipynb''\<rparr>"
    by (simp add: request_def)
  have absent: "kernels (server Map.empty) notebook_id = None"
    by (simp add: server_fields)
  have dead: "kernels (server [notebook_id \<mapsto> Handle (Inr False)]) notebook_id =
      Some (Handle (Inr False)) \<and> is_alive (Handle (Inr False)) = Inr False"
    by (simp add: server_fields)
  show ?thesis
    using dead_or_absent_starts_under_proposed
      [OF request_fields(1) p ne linux_namespace notebook_id_eq kw', of Map.empty]
      dead_or_absent_starts_under_proposed
      [OF request_fields(1) p ne linux_namespace notebook_id_eq kw',
        of "[notebook_id \<mapsto> Handle (Inr False)]"]
      absent dead
    by (simp add: server_fields underlying_start_def)
qed

text \<open>
  Claim C5. Two requests without a kernel id, made on any two hosts that share the hash
  (at any two times, by any two users, with any other arguments): when their canonical
  paths, their kernel types and the namespaces in force agree, both entry points test the
  registry for one and the same id, \<open>stable_kernel_id\<close> of the path, the type and the
  namespace. In particular two raw paths with the same canonical path get the same id.
\<close>

theorem proposed_id_is_function_of_path_type_namespace:
  assumes "arg_get (kernel_id kw1) = None" and "arg_get (kernel_id kw2) = None"
    and "abs_norm h1 (root_dir m1) (Some (pick_path_from_kwargs kw1)) = a"
    and "abs_norm h2 (root_dir m2) (Some (pick_path_from_kwargs kw2)) = a"
    and "a \<noteq> []"
    and "get_default (kernel_name kw1) (Some ''python3'') = k"
    and "get_default (kernel_name kw2) (Some ''python3'') = k"
    and "namespace h1 = Inr ns" and "namespace h2 = Inr ns"
    and "uuid_uuid5 h1 = uuid_uuid5 h2"
  shows "take 1 (calls (start_kernel h1 m1 kw1)) = [Contains (stable_kernel_id h1 a k ns)] \<and>
         take 1 (calls (start_kernel h2 m2 kw2)) = [Contains (stable_kernel_id h1 a k ns)] \<and>
         take 1 (calls (start_kernel_async h1 m1 kw1)) = [Contains (stable_kernel_id h1 a k ns)] \<and>
         take 1 (calls (start_kernel_async h2 m2 kw2)) = [Contains (stable_kernel_id h1 a k ns)] \<and>
         propose_id h1 m1 a k = propose_id h2 m2 a k"
proof -
  have same: "stable_kernel_id h2 a k ns = stable_kernel_id h1 a k ns"
    using assms(10) by (simp add: stable_kernel_id_def)
  have first: "take 1 (calls (start_kernel h m kw)) = [Contains (stable_kernel_id h a k ns)] \<and>
               take 1 (calls (start_kernel_async h m kw)) = [Contains (stable_kernel_id h a k ns)]"
    if "arg_get (kernel_id kw) = None"
      and "abs_norm h (root_dir m) (Some (pick_path_from_kwargs kw)) = a"
      and "get_default (kernel_name kw) (Some ''python3'') = k"
      and "namespace h = Inr ns"
    for h m kw
    using that \<open>a \<noteq> []\<close>
    by (simp add: start_kernel_def start_kernel_async_def Let_def pick_path_pop
        propose_id_returns split: option.split sum.split)
  show ?thesis
    using first [of kw1 h1 m1] first [of kw2 h2 m2] assms same
    by (simp add: propose_id_returns)
qed

theorem proposed_id_is_function_of_path_type_namespace_witness:
  "take 1 (calls (start_kernel linux_host (server Map.empty) (request ''notebooks/a.ipynb''))) =
     [Contains notebook_id] \<and>
   take 1 (calls (start_kernel (posix_host False [''USER'' \<mapsto> ''bob''])
       ((server [notebook_id \<mapsto> Handle (Inr True)])\<lparr>root_dir := None\<rparr>) other_request)) =
     [Contains notebook_id]"
proof -
  let ?h2 = "posix_host False [''USER'' \<mapsto> ''bob'']"
  let ?m2 = "(server [notebook_id \<mapsto> Handle (Inr True)])\<lparr>root_dir := None\<rparr>"
  have p1: "abs_norm linux_host (root_dir (server Map.empty))
      (Some (pick_path_from_kwargs (request ''notebooks/a.ipynb''))) =
      ''/home/u/proj/notebooks/a.ipynb''"
    by (simp only: request_fields server_fields canonical_plain)
  have p2: "abs_norm ?h2 (root_dir ?m2) (Some (pick_path_from_kwargs other_request)) =
      ''/home/u/proj/notebooks/a.ipynb''"
    using canonical_dotdot by (simp add: other_request_fields)
  have ne: "''/home/u/proj/notebooks/a.ipynb'' \<noteq> []"
    by simp
  have ns2: "namespace ?h2 = Inr DEFAULT_NAMESPACE"
    by (simp add: namespace_def posix_host_def)
  have hash: "uuid_uuid5 linux_host = uuid_uuid5 ?h2"
    by (simp add: linux_host_def posix_host_def)
  show ?thesis
    using proposed_id_is_function_of_path_type_namespace
      [OF request_fields(1) other_request_fields(1) p1 p2 ne request_fields(2)
        other_request_fields(2) linux_namespace ns2 hash]
    by (simp add: notebook_id_def)
qed

text \<open>
  Claim C6. For every host, manager state and request, the asynchronous entry point makes
  the calls of the synchronous one, in the same order and with the same arguments (kernel
  id and keyword arguments, the canonical path among them), the start operation replaced
  by its asynchronous counterpart; and it returns what the synchronous entry point returns
  over an underlying start operation that behaves like the asynchronous one.
\<close>

theorem sync_async_same_protocol:
  "calls (start_kernel_async h self kw) = map as_async (calls (start_kernel h self kw)) \<and>
   result (start_kernel_async h self kw) =
     result (start_kernel h (self\<lparr>super_start_kernel := super_start_kernel_async self\<rparr>) kw)"
  by (simp add: start_kernel_def start_kernel_async_def propose_id_def Let_def
      split: option.split sum.split)

theorem sync_async_same_protocol_witness:
  "calls (start_kernel_async linux_host (server Map.empty) (request ''notebooks/a.ipynb'')) =
     map as_async (calls (start_kernel linux_host (server Map.empty) (request ''notebooks/a.ipynb'')))
   \<and> result (start_kernel_async linux_host (server Map.empty) (request ''notebooks/a.ipynb'')) =
     result (start_kernel linux_host (server Map.empty) (request ''notebooks/a.ipynb''))"
  using sync_async_same_protocol [of linux_host "server Map.empty" "request ''notebooks/a.ipynb''"]
  by (simp add: server_def)

text \<open>
  Claim C7. \<open>pick_path_from_kwargs\<close> follows the order of precedence of the
  specification (\<open>path_precedence\<close>: a non-empty path argument, else a non-empty
  \<^verbatim>\<open>JPY_SESSION_NAME\<close> entry, else a non-empty \<^verbatim>\<open>NOTEBOOK_PATH\<close> entry, else the empty
  string); and when the path it extracts is empty, each entry point makes one call, the
  start operation of the superclass with the kernel id of the request (\<open>None\<close> when there
  is none) and the other arguments unchanged.
\<close>

theorem path_precedence_and_empty_path:
  "pick_path_from_kwargs kw = path_precedence kw \<and>
   (pick_path_from_kwargs kw = [] \<longrightarrow>
      start_kernel h self kw =
        \<lparr>result = super_start_kernel self (arg_get (kernel_id kw)) (kw\<lparr>kernel_id := Absent\<rparr>),
         calls = [SuperStart (arg_get (kernel_id kw)) (kw\<lparr>kernel_id := Absent\<rparr>)]\<rparr> \<and>
      start_kernel_async h self kw =
        \<lparr>result = super_start_kernel_async self (arg_get (kernel_id kw))
                    (kw\<lparr>kernel_id := Absent\<rparr>),
         calls = [SuperStartAsync (arg_get (kernel_id kw)) (kw\<lparr>kernel_id := Absent\<rparr>)]\<rparr>)"
  by (simp add: pick_path_precedence [symmetric] start_kernel_def start_kernel_async_def
      Let_def pick_path_pop abs_norm_empty)

theorem path_precedence_and_empty_path_witness:
  "pick_path_from_kwargs bare_request = [] \<and>
   start_kernel linux_host (server [notebook_id \<mapsto> Handle (Inr True)]) bare_request =
     \<lparr>result = Inr ''generated-by-the-underlying-manager'',
      calls = [SuperStart None bare_request]\<rparr> \<and>
   start_kernel_async linux_host (server [notebook_id \<mapsto> Handle (Inr True)]) bare_request =
     \<lparr>result = Inr ''generated-by-the-underlying-manager'',
      calls = [SuperStartAsync None bare_request]\<rparr> \<and>
   pick_path_from_kwargs other_request = ''/home/u/proj/notebooks/../notebooks/a.ipynb''"
proof -
  have empty: "pick_path_from_kwargs bare_request = []"
    by (simp add: pick_path_from_kwargs_def bare_request_def)
  have same: "bare_request\<lparr>kernel_id := Absent\<rparr> = bare_request"
    "arg_get (kernel_id bare_request) = None"
    by (simp_all add: bare_request_def)
  show ?thesis
    using path_precedence_and_empty_path
      [of bare_request linux_host "server [notebook_id \<mapsto> Handle (Inr True)]"]
      empty same other_request_fields(3)
    by (simp add: server_fields underlying_start_def)
qed

subsection \<open>The namespace and the identity\<close>

text \<open>
  Claim C8. \<open>namespace\<close> always returns a value and never an exception. It returns the
  default namespace when the variable \<^verbatim>\<open>STICKYKM_NAMESPACE\<close> is absent, empty, or holds a
  string on which \<^verbatim>\<open>uuid.UUID\<close> raises, and the parsed value of the variable otherwise. The
  id that \<open>propose_id\<close> returns is computed under the namespace that the environment of the
  call gives, whatever the state of the manager: nothing is kept between calls.
\<close>

theorem namespace_reread_with_silent_fallback:
  "(\<exists>ns. namespace h = Inr ns) \<and>
   (os_environ h ''STICKYKM_NAMESPACE'' = None \<longrightarrow> namespace h = Inr DEFAULT_NAMESPACE) \<and>
   (\<forall>v e. os_environ h ''STICKYKM_NAMESPACE'' = Some v \<and> (v = [] \<or> uuid_UUID h v = Inl e)
      \<longrightarrow> namespace h = Inr DEFAULT_NAMESPACE) \<and>
   (\<forall>v u. os_environ h ''STICKYKM_NAMESPACE'' = Some v \<and> v \<noteq> [] \<and> uuid_UUID h v = Inr u
      \<longrightarrow> namespace h = Inr u) \<and>
   (\<forall>ns. namespace h = Inr ns \<longrightarrow>
      propose_id h self a k = Inr (stable_kernel_id h a k ns) \<and>
      propose_id h self' a k = Inr (stable_kernel_id h a k ns))"
  by (auto simp: namespace_def propose_id_def Let_def split: option.split sum.split)

theorem namespace_reread_with_silent_fallback_witness:
  "namespace (posix_host False Map.empty) = Inr DEFAULT_NAMESPACE \<and>
   namespace (posix_host False [''STICKYKM_NAMESPACE'' \<mapsto> ''not-a-uuid'']) =
     Inr DEFAULT_NAMESPACE \<and>
   namespace (posix_host False [''STICKYKM_NAMESPACE'' \<mapsto> []]) = Inr DEFAULT_NAMESPACE \<and>
   namespace (posix_host False
       [''STICKYKM_NAMESPACE'' \<mapsto> ''6ba7b811-9dad-11d1-80b4-00c04fd430c8'']) =
     Inr 0x6ba7b8119dad11d180b400c04fd430c8 \<and>
   propose_id (posix_host False
       [''STICKYKM_NAMESPACE'' \<mapsto> ''6ba7b811-9dad-11d1-80b4-00c04fd430c8''])
       (server [notebook_id \<mapsto> Handle (Inr True)]) ''/home/u/proj/notebooks/a.ipynb''
       (Some ''python3'') =
     Inr (stable_kernel_id linux_host ''/home/u/proj/notebooks/a.ipynb'' (Some ''python3'')
            0x6ba7b8119dad11d180b400c04fd430c8)"
proof -
  let ?bad = "posix_host False [''STICKYKM_NAMESPACE'' \<mapsto> ''not-a-uuid'']"
  let ?empty = "posix_host False [''STICKYKM_NAMESPACE'' \<mapsto> []]"
  let ?good = "posix_host False
      [''STICKYKM_NAMESPACE'' \<mapsto> ''6ba7b811-9dad-11d1-80b4-00c04fd430c8'']"
  have absent: "os_environ (posix_host False Map.empty) ''STICKYKM_NAMESPACE'' = None"
    by (simp add: posix_host_def)
  have bad: "os_environ ?bad ''STICKYKM_NAMESPACE'' = Some ''not-a-uuid'' \<and>
      (''not-a-uuid'' = [] \<or> uuid_UUID ?bad ''not-a-uuid'' = Inl (Raised ''ValueError''))"
    by (simp add: posix_host_def malformed_example)
  have empty: "os_environ ?empty ''STICKYKM_NAMESPACE'' = Some [] \<and>
      ([] = ([] :: string) \<or> uuid_UUID ?empty [] = Inl (Raised ''ValueError''))"
    by (simp add: posix_host_def)
  have good: "os_environ ?good ''STICKYKM_NAMESPACE'' =
        Some ''6ba7b811-9dad-11d1-80b4-00c04fd430c8'' \<and>
      ''6ba7b811-9dad-11d1-80b4-00c04fd430c8'' \<noteq> [] \<and>
      uuid_UUID ?good ''6ba7b811-9dad-11d1-80b4-00c04fd430c8'' =
        Inr 0x6ba7b8119dad11d180b400c04fd430c8"
    by (simp add: posix_host_def wellformed_example)
  have hash: "stable_kernel_id ?good a k ns = stable_kernel_id linux_host a k ns" for a k ns
    by (simp add: stable_kernel_id_def linux_host_def posix_host_def)
  have n1: "namespace (posix_host False Map.empty) = Inr DEFAULT_NAMESPACE"
    using namespace_reread_with_silent_fallback [of "posix_host False Map.empty"] absent
    by blast
  have n2: "namespace ?bad = Inr DEFAULT_NAMESPACE"
    using namespace_reread_with_silent_fallback [of ?bad] bad
    by blast
  have n3: "namespace ?empty = Inr DEFAULT_NAMESPACE"
    using namespace_reread_with_silent_fallback [of ?empty] empty
    by blast
  have n4: "namespace ?good = Inr 0x6ba7b8119dad11d180b400c04fd430c8"
    using namespace_reread_with_silent_fallback [of ?good] good
    by blast
  have n5: "propose_id ?good (server [notebook_id \<mapsto> Handle (Inr True)])
      ''/home/u/proj/notebooks/a.ipynb'' (Some ''python3'') =
      Inr (stable_kernel_id ?good ''/home/u/proj/notebooks/a.ipynb'' (Some ''python3'')
            0x6ba7b8119dad11d180b400c04fd430c8)"
    using namespace_reread_with_silent_fallback [of ?good
        "server [notebook_id \<mapsto> Handle (Inr True)]" "''/home/u/proj/notebooks/a.ipynb''"
        "Some ''python3''"] n4
    by blast
  show ?thesis
    using n1 n2 n3 n4 n5 by (simp only: hash simp_thms)
qed

subsection \<open>Letter case in paths\<close>

lemma lower_char_fixes:
  assumes "\<not> (65 \<le> (of_char k :: nat) \<and> (of_char k :: nat) \<le> 90)"
    and "\<not> (97 \<le> (of_char k :: nat) \<and> (of_char k :: nat) \<le> 122)"
  shows "(lower_char c = k) = (c = k)"
proof (cases "65 \<le> (of_char c :: nat) \<and> (of_char c :: nat) \<le> 90")
  case True
  then have "of_char (lower_char c) = (of_char c :: nat) + 32"
    by (simp add: lower_char_def Let_def)
  with True assms show ?thesis by auto
next
  case False
  then show ?thesis by (auto simp: lower_char_def Let_def)
qed

lemma fold_char_fixes:
  assumes "(of_char k :: nat) < 65 \<or> (90 < (of_char k :: nat) \<and> (of_char k :: nat) < 97)"
  shows "(fold_char prev c = k) = (c = k)"
proof (cases "prev = CHR 0xC3 \<and> latin1_upper c")
  case True
  then have c: "128 \<le> (of_char c :: nat) \<and> (of_char c :: nat) \<le> 158"
    by (simp add: latin1_upper_def Let_def)
  then have "of_char (fold_char prev c) = (of_char c :: nat) + 32"
    using True by (simp add: fold_char_def)
  with c assms show ?thesis by auto
next
  case False
  then have "fold_char prev c = lower_char c"
    by (auto simp: fold_char_def)
  moreover have "(lower_char c = k) = (c = k)"
    using assms by (intro lower_char_fixes) auto
  ultimately show ?thesis
    by simp
qed

lemma fold_char_slash [simp]: "(fold_char prev c = CHR ''/'') = (c = CHR ''/'')"
  by (rule fold_char_fixes) simp

lemma fold_char_backslash [simp]: "(fold_char prev c = CHR 0x5C) = (c = CHR 0x5C)"
  by (rule fold_char_fixes) simp

lemma fold_char_colon [simp]: "(fold_char prev c = CHR '':'') = (c = CHR '':'')"
  by (rule fold_char_fixes) simp

lemma nt_sep_fold_char [simp]:
  "(nt_sep (fold_char prev c) = CHR 0x5C) = (nt_sep c = CHR 0x5C)"
  "(nt_sep (fold_char prev c) = CHR '':'') = (nt_sep c = CHR '':'')"
  by (simp_all add: nt_sep_def)

lemma fold_char_nt_sep: "fold_char (nt_sep prev) (nt_sep c) = nt_sep (fold_char prev c)"
proof (cases "c = CHR ''/''")
  case True
  then show ?thesis
    by (simp add: nt_sep_def fold_char_def latin1_upper_def lower_char_def)
next
  case False
  then have "nt_sep (fold_char prev c) = fold_char prev c"
    by (simp add: nt_sep_def)
  moreover have "fold_char (nt_sep prev) c = fold_char prev c"
    by (simp add: nt_sep_def fold_char_def)
  ultimately show ?thesis
    using False by (simp add: nt_sep_def)
qed

lemma lower_after_nt_sep:
  "lower_after (nt_sep prev) (map nt_sep s) = map nt_sep (lower_after prev s)"
  by (induction s arbitrary: prev) (simp_all add: fold_char_nt_sep)

lemma utf8_lower_nt_sep: "utf8_lower (map nt_sep s) = map nt_sep (utf8_lower s)"
  using lower_after_nt_sep [of "CHR 0x00" s] by (simp add: utf8_lower_def nt_sep_def)

lemma lower_after_prev:
  "prev \<noteq> CHR 0xC3 \<Longrightarrow> prev' \<noteq> CHR 0xC3 \<Longrightarrow> lower_after prev s = lower_after prev' s"
  by (cases s) (simp_all add: fold_char_def)

lemma lower_after_append:
  "lower_after prev (xs @ ys) = lower_after prev xs @ lower_after (last (prev # xs)) ys"
  by (induction xs arbitrary: prev) simp_all

lemma nt_isabs_lower: "nt_isabs (utf8_lower s) = nt_isabs s"
proof (cases s)
  case Nil
  then show ?thesis by (simp add: nt_isabs_def utf8_lower_def)
next
  case (Cons a t)
  note s = this
  show ?thesis
  proof (cases t)
    case Nil
    with s show ?thesis by (simp add: nt_isabs_def utf8_lower_def)
  next
    case (Cons b u)
    with s show ?thesis by (cases u) (simp_all add: nt_isabs_def utf8_lower_def)
  qed
qed

lemma nt_isabs_case: "same_modulo_case utf8_lower p q \<Longrightarrow> nt_isabs p = nt_isabs q"
  using nt_isabs_lower [of p] nt_isabs_lower [of q] by (simp add: same_modulo_case_def)

lemma utf8_lower_after_separator:
  assumes "utf8_lower p = utf8_lower q" and "z \<noteq> CHR 0xC3"
  shows "lower_after z p = lower_after z q"
  using assms lower_after_prev [of z "CHR 0x00" p] lower_after_prev [of z "CHR 0x00" q]
  by (simp add: utf8_lower_def)

lemma nt_join_case:
  assumes "same_modulo_case utf8_lower p q"
  shows "same_modulo_case utf8_lower (nt_join b p) (nt_join b q)"
proof -
  from assms have same: "utf8_lower p = utf8_lower q"
    by (simp add: same_modulo_case_def)
  show ?thesis
  proof (cases "b = [] \<or> last b \<in> {CHR ''/'', CHR 0x5C, CHR '':''}")
    case True
    then have "last (CHR 0x00 # b) \<noteq> CHR 0xC3"
      by auto
    then have "lower_after (last (CHR 0x00 # b)) p = lower_after (last (CHR 0x00 # b)) q"
      by (rule utf8_lower_after_separator [OF same])
    with True show ?thesis
      by (simp add: same_modulo_case_def nt_join_def utf8_lower_def lower_after_append)
  next
    case False
    have "lower_after (CHR 0x5C) p = lower_after (CHR 0x5C) q"
      by (rule utf8_lower_after_separator [OF same]) simp
    with False show ?thesis
      by (simp add: same_modulo_case_def nt_join_def utf8_lower_def lower_after_append)
  qed
qed

lemma nt_sep_case:
  "same_modulo_case utf8_lower p q \<Longrightarrow>
   same_modulo_case utf8_lower (map nt_sep p) (map nt_sep q)"
  by (simp add: same_modulo_case_def utf8_lower_nt_sep)

lemma nt_normcase_case: "same_modulo_case utf8_lower p q \<Longrightarrow> nt_normcase p = nt_normcase q"
  by (simp add: same_modulo_case_def nt_normcase_def utf8_lower_nt_sep)

lemma nt_host_case_compatible: "case_compatible utf8_lower nt_host"
  unfolding case_compatible_def nt_host_def
  by (simp add: nt_isabs_case nt_join_case nt_sep_case nt_normcase_case)

lemma nt_example:
  "abs_norm nt_host (Some ''C:/nb'') (Some ''Report.IPYNB'') =
     [CHR ''c'', CHR '':'', CHR 0x5C, CHR ''n'', CHR ''b'', CHR 0x5C] @ ''report.ipynb''"
  by code_simp

lemma nt_umlaut_example:
  "abs_norm nt_host (Some ''C:/nb'') (Some ([CHR 0xC3, CHR 0x84] @ ''rger.ipynb'')) =
     [CHR ''c'', CHR '':'', CHR 0x5C, CHR ''n'', CHR ''b'', CHR 0x5C, CHR 0xC3, CHR 0xA4]
       @ ''rger.ipynb''"
  by code_simp

lemma nt_case_example: "same_modulo_case utf8_lower ''Report.IPYNB'' ''report.ipynb''"
  by code_simp

lemma nt_umlaut_case_example:
  "same_modulo_case utf8_lower ([CHR 0xC3, CHR 0x84] @ ''rger.ipynb'')
     ([CHR 0xC3, CHR 0xA4] @ ''RGER.ipynb'')"
  by code_simp

lemma macos_example:
  "abs_norm macos_host (Some ''/Users/u'') (Some ''Notes.ipynb'') = ''/Users/u/Notes.ipynb''"
  by code_simp

text \<open>
  Claim C9, as the code has it. \<open>abs_norm\<close> applies \<^verbatim>\<open>os.path.normcase\<close> exactly when
  \<^verbatim>\<open>os.name\<close> is \<^verbatim>\<open>"nt"\<close>. On such a host whose path functions resolve names without
  regard to case (under any lower-casing \<open>lower\<close> of strings), two non-empty raw paths that
  differ only in letter case get, for every base directory, the same canonical path and
  so the same id. On every other host no case normalisation is applied: the canonical
  path of a non-empty raw path is the resolved absolute path as \<^verbatim>\<open>abspath\<close> and
  \<^verbatim>\<open>realpath\<close> return it, whatever \<^verbatim>\<open>normcase\<close> is.
\<close>

theorem abs_norm_folds_case_exactly_on_nt:
  "(os_name h = ''nt'' \<and> case_compatible lower h \<and> r1 \<noteq> [] \<and> r2 \<noteq> [] \<and>
    same_modulo_case lower r1 r2 \<longrightarrow>
      abs_norm h root (Some r1) = abs_norm h root (Some r2) \<and>
      propose_id h self (abs_norm h root (Some r1)) k =
        propose_id h self (abs_norm h root (Some r2)) k) \<and>
   (os_name h = ''nt'' \<and> r \<noteq> [] \<longrightarrow>
      abs_norm h root (Some r) =
        os_path_normcase h (os_path_abspath h (os_path_realpath h
          (if os_path_isabs h r then r else os_path_join h (str_or root (os_getcwd h)) r)))) \<and>
   (os_name h \<noteq> ''nt'' \<and> r \<noteq> [] \<longrightarrow>
      abs_norm h root (Some r) =
        os_path_abspath h (os_path_realpath h
          (if os_path_isabs h r then r else os_path_join h (str_or root (os_getcwd h)) r)) \<and>
      abs_norm (h\<lparr>os_path_normcase := f\<rparr>) root (Some r) = abs_norm h root (Some r))"
proof -
  have folds: "abs_norm h root (Some r1) = abs_norm h root (Some r2)"
    if nt: "os_name h = ''nt''" and cc: "case_compatible lower h"
      and ne: "r1 \<noteq> []" "r2 \<noteq> []" and same: "same_modulo_case lower r1 r2"
  proof -
    let ?base = "str_or root (os_getcwd h)"
    let ?p1 = "if os_path_isabs h r1 then r1 else os_path_join h ?base r1"
    let ?p2 = "if os_path_isabs h r2 then r2 else os_path_join h ?base r2"
    from cc same have "os_path_isabs h r1 = os_path_isabs h r2"
      and "same_modulo_case lower (os_path_join h ?base r1) (os_path_join h ?base r2)"
      by (simp_all add: case_compatible_def)
    then have "same_modulo_case lower ?p1 ?p2"
      using same by simp
    with cc have "same_modulo_case lower (os_path_realpath h ?p1) (os_path_realpath h ?p2)"
      unfolding case_compatible_def by blast
    with cc have "same_modulo_case lower (os_path_abspath h (os_path_realpath h ?p1))
        (os_path_abspath h (os_path_realpath h ?p2))"
      unfolding case_compatible_def by blast
    with cc have "os_path_normcase h (os_path_abspath h (os_path_realpath h ?p1)) =
        os_path_normcase h (os_path_abspath h (os_path_realpath h ?p2))"
      unfolding case_compatible_def by blast
    with nt ne show ?thesis
      by (simp add: abs_norm_def Let_def)
  qed
  have on_nt: "abs_norm h root (Some r) =
      os_path_normcase h (os_path_abspath h (os_path_realpath h
        (if os_path_isabs h r then r else os_path_join h (str_or root (os_getcwd h)) r)))"
    if "os_name h = ''nt''" and "r \<noteq> []"
    using that by (simp add: abs_norm_def Let_def)
  have elsewhere: "abs_norm h root (Some r) =
      os_path_abspath h (os_path_realpath h
        (if os_path_isabs h r then r else os_path_join h (str_or root (os_getcwd h)) r)) \<and>
      abs_norm (h\<lparr>os_path_normcase := f\<rparr>) root (Some r) = abs_norm h root (Some r)"
    if "os_name h \<noteq> ''nt''" and "r \<noteq> []"
    using that by (simp add: abs_norm_def Let_def)
  from folds on_nt elsewhere show ?thesis
    by simp
qed

theorem abs_norm_folds_case_exactly_on_nt_witness:
  "os_name nt_host = ''nt'' \<and> case_compatible utf8_lower nt_host \<and>
   same_modulo_case utf8_lower ''Report.IPYNB'' ''report.ipynb'' \<and>
   abs_norm nt_host (Some ''C:/nb'') (Some ''Report.IPYNB'') =
     abs_norm nt_host (Some ''C:/nb'') (Some ''report.ipynb'') \<and>
   same_modulo_case utf8_lower ([CHR 0xC3, CHR 0x84] @ ''rger.ipynb'')
     ([CHR 0xC3, CHR 0xA4] @ ''RGER.ipynb'') \<and>
   abs_norm nt_host (Some ''C:/nb'') (Some ([CHR 0xC3, CHR 0x84] @ ''rger.ipynb'')) =
     abs_norm nt_host (Some ''C:/nb'') (Some ([CHR 0xC3, CHR 0xA4] @ ''RGER.ipynb'')) \<and>
   abs_norm nt_host (Some ''C:/nb'') (Some ([CHR 0xC3, CHR 0x84] @ ''rger.ipynb'')) =
     [CHR ''c'', CHR '':'', CHR 0x5C, CHR ''n'', CHR ''b'', CHR 0x5C, CHR 0xC3, CHR 0xA4]
       @ ''rger.ipynb'' \<and>
   os_name macos_host \<noteq> ''nt'' \<and>
   abs_norm (macos_host\<lparr>os_path_normcase := nt_normcase\<rparr>) (Some ''/Users/u'')
       (Some ''Notes.ipynb'') = ''/Users/u/Notes.ipynb''"
proof -
  have nt: "os_name nt_host = ''nt''"
    by (simp add: nt_host_def)
  have posix: "os_name macos_host \<noteq> ''nt''"
    by (simp add: macos_host_def posix_host_def)
  have ascii: "abs_norm nt_host (Some ''C:/nb'') (Some ''Report.IPYNB'') =
      abs_norm nt_host (Some ''C:/nb'') (Some ''report.ipynb'')"
    using abs_norm_folds_case_exactly_on_nt [where h = nt_host and lower = utf8_lower
        and ?r1.0 = "''Report.IPYNB''" and ?r2.0 = "''report.ipynb''"
        and root = "Some ''C:/nb''"]
      nt nt_host_case_compatible nt_case_example
    by simp
  have umlaut: "abs_norm nt_host (Some ''C:/nb'') (Some ([CHR 0xC3, CHR 0x84] @ ''rger.ipynb'')) =
      abs_norm nt_host (Some ''C:/nb'') (Some ([CHR 0xC3, CHR 0xA4] @ ''RGER.ipynb''))"
    using abs_norm_folds_case_exactly_on_nt [where h = nt_host and lower = utf8_lower
        and ?r1.0 = "[CHR 0xC3, CHR 0x84] @ ''rger.ipynb''"
        and ?r2.0 = "[CHR 0xC3, CHR 0xA4] @ ''RGER.ipynb''" and root = "Some ''C:/nb''"]
      nt nt_host_case_compatible nt_umlaut_case_example
    by simp
  have kept: "abs_norm (macos_host\<lparr>os_path_normcase := nt_normcase\<rparr>) (Some ''/Users/u'')
      (Some ''Notes.ipynb'') = abs_norm macos_host (Some ''/Users/u'') (Some ''Notes.ipynb'')"
    using abs_norm_folds_case_exactly_on_nt [where h = macos_host and r = "''Notes.ipynb''"
        and root = "Some ''/Users/u''" and f = nt_normcase] posix
    by simp
  show ?thesis
    using nt posix nt_host_case_compatible nt_case_example nt_umlaut_case_example ascii umlaut
      nt_umlaut_example kept macos_example
    by simp
qed

text \<open>
  Claim C9, as the specification states it, fails on a host whose file system ignores case
  while \<^verbatim>\<open>os.name\<close> is not \<^verbatim>\<open>"nt"\<close>: on macOS the names \<^verbatim>\<open>Notes.ipynb\<close> and
  \<^verbatim>\<open>notes.ipynb\<close> in one directory keep different canonical paths.
\<close>

theorem case_kept_on_posix_counterexample:
  "fs_ignores_case macos_host \<and> same_modulo_case utf8_lower ''Notes.ipynb'' ''notes.ipynb'' \<and>
   abs_norm macos_host (Some ''/Users/u'') (Some ''Notes.ipynb'') \<noteq>
     abs_norm macos_host (Some ''/Users/u'') (Some ''notes.ipynb'')"
  by code_simp

text \<open>
  Claim C10. The name that is hashed is the path, the character \<open>|\<close> and the kernel type
  in a row, and two different pairs can give one name: the path \<open>a|b\<close> with the type \<open>c\<close>,
  and the path \<open>a\<close> with the type \<open>b|c\<close>, get the same id on every host (whatever the
  hash) and under every namespace.
\<close>

theorem separator_encoding_not_injective:
  "stable_kernel_id h ''a|b'' (Some ''c'') ns = stable_kernel_id h ''a'' (Some ''b|c'') ns \<and>
   (''a|b'', ''c'') \<noteq> (''a'', ''b|c'')"
  by (simp add: stable_kernel_id_def)

theorem separator_encoding_not_injective_witness:
  "stable_kernel_id linux_host ''a|b'' (Some ''c'') DEFAULT_NAMESPACE =
     stable_kernel_id linux_host ''a'' (Some ''b|c'') DEFAULT_NAMESPACE"
  using separator_encoding_not_injective [of linux_host DEFAULT_NAMESPACE]
  by simp

end
